theory Spec2Isabelle
  imports Main
begin

section \<open>The API response envelope of \<^verbatim>\<open>src/utils/apiResponse.ts\<close>\<close>

subsection \<open>Data model\<close>

text \<open>
  A slot of TypeScript type \<^verbatim>\<open>T | undefined\<close>: JavaScript's \<^verbatim>\<open>undefined\<close>, or a
  value of \<^verbatim>\<open>T\<close>. An optional property \<^verbatim>\<open>k?: T\<close> of an interface is such a slot that
  may also be missing from the object altogether, so it is an \<open>'a js option\<close>:
  \<open>None\<close> when the object has no property \<^verbatim>\<open>k\<close>, \<open>Some Undefined\<close> when the property
  is there and holds \<^verbatim>\<open>undefined\<close>, \<open>Some (Defined v)\<close> when it holds \<open>v\<close>.
  The operator \<^verbatim>\<open>'k' in obj\<close> tells \<open>None\<close> from \<open>Some _\<close>; the read \<^verbatim>\<open>obj.k\<close>
  does not tell \<open>None\<close> from \<open>Some Undefined\<close>.
\<close>

datatype 'a js = Undefined | Defined 'a

definition has_property :: "'a js option \<Rightarrow> bool" where
  "has_property slot = (slot \<noteq> None)"

definition read_property :: "'a js option \<Rightarrow> 'a js" where
  "read_property slot = (case slot of None \<Rightarrow> Undefined | Some v \<Rightarrow> v)"

text \<open>
  \<^verbatim>\<open>error?: { code: string; message: string; details?: unknown }\<close>. The type
  \<^verbatim>\<open>unknown\<close> is the type parameter \<open>'d\<close>.
\<close>

record 'd ErrorInfo =
  code :: string
  message :: string
  details :: "'d js option"

text \<open>
  \<^verbatim>\<open>interface ApiResponse<T> { success: boolean; data?: T; error?: {...}; timestamp: number }\<close>.
  The only numbers the module stores in \<^verbatim>\<open>timestamp\<close> are readings of \<^verbatim>\<open>Date.now()\<close>,
  whole milliseconds, so the field is an \<open>int\<close>.
\<close>

record ('a, 'd) ApiResponse =
  success :: bool
  data :: "'a js option"
  error :: "'d ErrorInfo js option"
  timestamp :: int

subsection \<open>The clock\<close>

text \<open>
  \<^verbatim>\<open>Date.now()\<close> is the module's only effect. The ambient clock is the sequence of
  readings it hands out, and the state threaded through the constructors is the number
  of readings taken so far.
\<close>

type_synonym clock = "nat \<Rightarrow> int"

definition Date_now :: "clock \<Rightarrow> nat \<Rightarrow> int \<times> nat" where
  "Date_now clk n = (clk n, Suc n)"

subsection \<open>Constructors\<close>

text \<open>
  \<^verbatim>\<open>return { success: true, data, timestamp: Date.now() }\<close>: the object literal has no
  \<^verbatim>\<open>error\<close> property, and always has a \<^verbatim>\<open>data\<close> property, whatever the argument is.
  The argument is any value of \<^verbatim>\<open>T\<close>, \<^verbatim>\<open>undefined\<close> included where \<^verbatim>\<open>T\<close> admits it.
\<close>

definition createSuccessResponse ::
  "clock \<Rightarrow> 'a js \<Rightarrow> nat \<Rightarrow> ('a, 'd) ApiResponse \<times> nat" where
  "createSuccessResponse clk data' n =
     (case Date_now clk n of
        (t, n') \<Rightarrow> (\<lparr>success = True, data = Some data', error = None, timestamp = t\<rparr>, n'))"

text \<open>
  An optional parameter \<^verbatim>\<open>details?: unknown\<close>: \<open>None\<close> is a call that leaves the
  argument out, and JavaScript binds the parameter to \<^verbatim>\<open>undefined\<close> then.
\<close>

definition optional_parameter :: "'d js option \<Rightarrow> 'd js" where
  "optional_parameter arg = (case arg of None \<Rightarrow> Undefined | Some v \<Rightarrow> v)"

text \<open>
  \<^verbatim>\<open>return { success: false, error: { code, message, details }, timestamp: Date.now() }\<close>:
  no \<^verbatim>\<open>data\<close> property; the inner literal always has a \<^verbatim>\<open>details\<close> property.
\<close>

definition createErrorResponse ::
  "clock \<Rightarrow> string \<Rightarrow> string \<Rightarrow> 'd js option \<Rightarrow> nat \<Rightarrow> ('a, 'd) ApiResponse \<times> nat" where
  "createErrorResponse clk code' message' details' n =
     (case Date_now clk n of
        (t, n') \<Rightarrow>
          (\<lparr>success = False, data = None,
            error = Some (Defined \<lparr>code = code', message = message',
                                   details = Some (optional_parameter details')\<rparr>),
            timestamp = t\<rparr>, n'))"

subsection \<open>Type guards\<close>

text \<open>\<^verbatim>\<open>return response.success && 'data' in response\<close>\<close>

definition isSuccessResponse :: "('a, 'd) ApiResponse \<Rightarrow> bool" where
  "isSuccessResponse response = (success response \<and> has_property (data response))"

text \<open>\<^verbatim>\<open>return !response.success && 'error' in response\<close>\<close>

definition isErrorResponse :: "('a, 'd) ApiResponse \<Rightarrow> bool" where
  "isErrorResponse response = (\<not> success response \<and> has_property (error response))"

subsection \<open>Sequences of constructor calls\<close>

text \<open>
  A process that builds envelopes one after the other: each call takes the next reading
  of the clock.
\<close>

datatype ('a, 'd) call =
  CallSuccess "'a js"
| CallError string string "'d js option"

fun run_call :: "clock \<Rightarrow> ('a, 'd) call \<Rightarrow> nat \<Rightarrow> ('a, 'd) ApiResponse \<times> nat" where
  "run_call clk (CallSuccess v) n = createSuccessResponse clk v n"
| "run_call clk (CallError c m d) n = createErrorResponse clk c m d n"

fun run_calls :: "clock \<Rightarrow> ('a, 'd) call list \<Rightarrow> nat \<Rightarrow> ('a, 'd) ApiResponse list \<times> nat" where
  "run_calls clk [] n = ([], n)"
| "run_calls clk (c # cs) n =
     (case run_call clk c n of
        (r, n') \<Rightarrow> (case run_calls clk cs n' of (rs, n'') \<Rightarrow> (r # rs, n'')))"

subsection \<open>The same operations on untyped JavaScript values\<close>

text \<open>
  TypeScript's types are erased when the module runs, and two of the operators the
  guards use can throw: reading a property of \<^verbatim>\<open>undefined\<close> or \<^verbatim>\<open>null\<close>, and
  \<^verbatim>\<open>in\<close> with a right operand that is not an object. This layer keeps those
  branches, so that "the guards never fail on an envelope" is a statement with content.
  An object is the list of its properties.
\<close>

datatype jsval =
  JUndefined
| JNull
| JBool bool
| JNumber int
| JString string
| JObject "(string \<times> jsval) list"

datatype js_exception = TypeError

text \<open>
  \<^verbatim>\<open>v.k\<close>. A primitive is read through its wrapper object, which has none of the
  property names this module reads, so the read gives \<^verbatim>\<open>undefined\<close>.
\<close>

fun get_member :: "jsval \<Rightarrow> string \<Rightarrow> js_exception + jsval" where
  "get_member JUndefined k = Inl TypeError"
| "get_member JNull k = Inl TypeError"
| "get_member (JObject ps) k = Inr (case map_of ps k of None \<Rightarrow> JUndefined | Some v \<Rightarrow> v)"
| "get_member v k = Inr JUndefined"

text \<open>
  \<^verbatim>\<open>k in v\<close>. The objects here are plain: they inherit no property of the names the
  module asks for, so the properties of an object are the ones in its list.
\<close>

fun js_in :: "string \<Rightarrow> jsval \<Rightarrow> js_exception + bool" where
  "js_in k (JObject ps) = Inr (map_of ps k \<noteq> None)"
| "js_in k v = Inl TypeError"

text \<open>JavaScript's ToBoolean.\<close>

fun truthy :: "jsval \<Rightarrow> bool" where
  "truthy JUndefined = False"
| "truthy JNull = False"
| "truthy (JBool b) = b"
| "truthy (JNumber i) = (i \<noteq> 0)"
| "truthy (JString s) = (s \<noteq> [])"
| "truthy (JObject ps) = True"

text \<open>
  \<^verbatim>\<open>response.success && 'data' in response\<close>: \<^verbatim>\<open>a && b\<close> is \<^verbatim>\<open>a\<close> itself when
  \<^verbatim>\<open>a\<close> is falsy, and \<^verbatim>\<open>b\<close> is not evaluated then.
\<close>

definition isSuccessResponse_js :: "jsval \<Rightarrow> js_exception + jsval" where
  "isSuccessResponse_js response =
     (case get_member response ''success'' of
        Inl e \<Rightarrow> Inl e
      | Inr s \<Rightarrow>
          if truthy s
          then (case js_in ''data'' response of Inl e \<Rightarrow> Inl e | Inr b \<Rightarrow> Inr (JBool b))
          else Inr s)"

text \<open>\<^verbatim>\<open>!response.success && 'error' in response\<close>\<close>

definition isErrorResponse_js :: "jsval \<Rightarrow> js_exception + jsval" where
  "isErrorResponse_js response =
     (case get_member response ''success'' of
        Inl e \<Rightarrow> Inl e
      | Inr s \<Rightarrow>
          if \<not> truthy s
          then (case js_in ''error'' response of Inl e \<Rightarrow> Inl e | Inr b \<Rightarrow> Inr (JBool b))
          else Inr (JBool False))"

text \<open>The two object literals. Nothing in them can throw.\<close>

definition createSuccessResponse_js :: "clock \<Rightarrow> jsval \<Rightarrow> nat \<Rightarrow> (js_exception + jsval) \<times> nat" where
  "createSuccessResponse_js clk data' n =
     (case Date_now clk n of
        (t, n') \<Rightarrow>
          (Inr (JObject [(''success'', JBool True), (''data'', data'),
                         (''timestamp'', JNumber t)]), n'))"

definition createErrorResponse_js ::
  "clock \<Rightarrow> string \<Rightarrow> string \<Rightarrow> jsval option \<Rightarrow> nat \<Rightarrow> (js_exception + jsval) \<times> nat" where
  "createErrorResponse_js clk code' message' details' n =
     (case Date_now clk n of
        (t, n') \<Rightarrow>
          (Inr (JObject [(''success'', JBool False),
                         (''error'', JObject [(''code'', JString code'),
                                              (''message'', JString message'),
                                              (''details'', (case details' of None \<Rightarrow> JUndefined | Some v \<Rightarrow> v))]),
                         (''timestamp'', JNumber t)]), n'))"

text \<open>
  The object a typed envelope stands for. The payload and the details are any JavaScript
  values: \<open>enc_a\<close> and \<open>enc_d\<close> say which.
\<close>

definition js_of :: "('a \<Rightarrow> jsval) \<Rightarrow> 'a js \<Rightarrow> jsval" where
  "js_of enc v = (case v of Undefined \<Rightarrow> JUndefined | Defined x \<Rightarrow> enc x)"

definition property :: "string \<Rightarrow> ('a \<Rightarrow> jsval) \<Rightarrow> 'a js option \<Rightarrow> (string \<times> jsval) list" where
  "property k enc slot = (case slot of None \<Rightarrow> [] | Some v \<Rightarrow> [(k, js_of enc v)])"

definition ErrorInfo_object :: "('d \<Rightarrow> jsval) \<Rightarrow> 'd ErrorInfo \<Rightarrow> jsval" where
  "ErrorInfo_object enc_d e =
     JObject ([(''code'', JString (code e)), (''message'', JString (message e))]
              @ property ''details'' enc_d (details e))"

definition ApiResponse_object ::
  "('a \<Rightarrow> jsval) \<Rightarrow> ('d \<Rightarrow> jsval) \<Rightarrow> ('a, 'd) ApiResponse \<Rightarrow> jsval" where
  "ApiResponse_object enc_a enc_d r =
     JObject ([(''success'', JBool (success r))]
              @ property ''data'' enc_a (data r)
              @ property ''error'' (ErrorInfo_object enc_d) (error r)
              @ [(''timestamp'', JNumber (timestamp r))])"

subsection \<open>Example envelopes\<close>

text \<open>
  Three values of the interface that no constructor returns. The first is
  \<^verbatim>\<open>{ success: true, timestamp: 0 }\<close>, the second \<^verbatim>\<open>{ success: false, timestamp: 0 }\<close>;
  both type-check as \<^verbatim>\<open>ApiResponse<number>\<close>, since \<^verbatim>\<open>data\<close> and \<^verbatim>\<open>error\<close> are optional.
  The third carries both optional properties.
\<close>

definition success_without_data :: "(int, string) ApiResponse" where
  "success_without_data = \<lparr>success = True, data = None, error = None, timestamp = 0\<rparr>"

definition failure_without_error :: "(int, string) ApiResponse" where
  "failure_without_error = \<lparr>success = False, data = None, error = None, timestamp = 0\<rparr>"

definition data_and_error :: "(int, string) ApiResponse" where
  "data_and_error =
     \<lparr>success = True, data = Some (Defined 42),
      error = Some (Defined \<lparr>code = ''E1'', message = ''boom'', details = None\<rparr>),
      timestamp = 0\<rparr>"

text \<open>A clock whose readings coincide in pairs, and one that stands still.\<close>

definition coarse_clock :: clock where
  "coarse_clock k = 1700000000000 + int (k div 2)"

definition frozen_clock :: clock where
  "frozen_clock k = 1700000000001"

section \<open>Properties\<close>

lemmas constructor_defs = createSuccessResponse_def createErrorResponse_def Date_now_def

lemmas guard_defs = isSuccessResponse_def isErrorResponse_def has_property_def

subsection \<open>The guards\<close>

text \<open>
  Claim C1, as the code has it. The two guards are never both true, but they can both be
  false: each also asks for its own property with \<^verbatim>\<open>in\<close>. Exactly one of them is true
  if and only if the envelope has the property its flag calls for (\<^verbatim>\<open>data\<close> when
  \<^verbatim>\<open>success\<close> is true, \<^verbatim>\<open>error\<close> when it is false); on every other envelope both are
  false. Every envelope a constructor returns has the property its flag calls for:
  \<^verbatim>\<open>createSuccessResponse\<close> returns a true flag with a \<^verbatim>\<open>data\<close> property,
  \<^verbatim>\<open>createErrorResponse\<close> a false flag with an \<^verbatim>\<open>error\<close> property, so exactly one guard
  is true on each.
\<close>

theorem guards_exactly_one_iff_property:
  "\<not> (isSuccessResponse e \<and> isErrorResponse e)
   \<and> ((isSuccessResponse e \<noteq> isErrorResponse e)
      = (if success e then data e \<noteq> None else error e \<noteq> None))
   \<and> ((\<not> isSuccessResponse e \<and> \<not> isErrorResponse e)
      = (if success e then data e = None else error e = None))
   \<and> success (fst (createSuccessResponse clk v n))
   \<and> data (fst (createSuccessResponse clk v n)) \<noteq> None
   \<and> isSuccessResponse (fst (createSuccessResponse clk v n))
        \<noteq> isErrorResponse (fst (createSuccessResponse clk v n))
   \<and> \<not> success (fst (createErrorResponse clk c m d n))
   \<and> error (fst (createErrorResponse clk c m d n)) \<noteq> None
   \<and> isSuccessResponse (fst (createErrorResponse clk c m d n))
        \<noteq> isErrorResponse (fst (createErrorResponse clk c m d n))"
proof (intro conjI)
  show "\<not> (isSuccessResponse e \<and> isErrorResponse e)"
    by (simp add: guard_defs)
  show "(isSuccessResponse e \<noteq> isErrorResponse e)
          = (if success e then data e \<noteq> None else error e \<noteq> None)"
    by (auto simp: guard_defs)
  show "(\<not> isSuccessResponse e \<and> \<not> isErrorResponse e)
          = (if success e then data e = None else error e = None)"
    by (auto simp: guard_defs)
  show "success (fst (createSuccessResponse clk v n))"
    by (simp add: constructor_defs)
  show "data (fst (createSuccessResponse clk v n)) \<noteq> None"
    by (simp add: constructor_defs)
  show "isSuccessResponse (fst (createSuccessResponse clk v n))
          \<noteq> isErrorResponse (fst (createSuccessResponse clk v n))"
    by (simp add: guard_defs constructor_defs)
  show "\<not> success (fst (createErrorResponse clk c m d n))"
    by (simp add: constructor_defs)
  show "error (fst (createErrorResponse clk c m d n)) \<noteq> None"
    by (simp add: constructor_defs)
  show "isSuccessResponse (fst (createErrorResponse clk c m d n))
          \<noteq> isErrorResponse (fst (createErrorResponse clk c m d n))"
    by (simp add: guard_defs constructor_defs)
qed

text \<open>
  Claim C1 as stated fails: on \<^verbatim>\<open>{ success: true, timestamp: 0 }\<close> neither guard is true.
\<close>

theorem guards_neither_counterexample:
  "\<not> isSuccessResponse success_without_data \<and> \<not> isErrorResponse success_without_data"
  by (simp add: guard_defs success_without_data_def)

text \<open>
  The amended C1 at an envelope with both properties, and at the envelopes of
  \<^verbatim>\<open>createSuccessResponse(42)\<close> and \<^verbatim>\<open>createErrorResponse("E1", "boom")\<close>: exactly one
  guard is true on each.
\<close>

theorem guards_exactly_one_witness:
  "isSuccessResponse data_and_error \<noteq> isErrorResponse data_and_error
   \<and> isSuccessResponse
        (fst (createSuccessResponse coarse_clock (Defined (42::int)) 0) :: (int, string) ApiResponse)
      \<noteq> isErrorResponse
        (fst (createSuccessResponse coarse_clock (Defined (42::int)) 0) :: (int, string) ApiResponse)
   \<and> isSuccessResponse
        (fst (createErrorResponse coarse_clock ''E1'' ''boom'' None 0) :: (int, string) ApiResponse)
      \<noteq> isErrorResponse
        (fst (createErrorResponse coarse_clock ''E1'' ''boom'' None 0) :: (int, string) ApiResponse)"
proof (intro conjI)
  note inst = guards_exactly_one_iff_property
    [of data_and_error coarse_clock "Defined (42::int)" 0 "''E1''" "''boom''" None]
  note rest = inst [THEN conjunct2, THEN conjunct2, THEN conjunct2, THEN conjunct2,
    THEN conjunct2]
  show "isSuccessResponse data_and_error \<noteq> isErrorResponse data_and_error"
    using inst [THEN conjunct2, THEN conjunct1] by (simp add: data_and_error_def)
  show "isSuccessResponse
        (fst (createSuccessResponse coarse_clock (Defined (42::int)) 0) :: (int, string) ApiResponse)
      \<noteq> isErrorResponse
        (fst (createSuccessResponse coarse_clock (Defined (42::int)) 0) :: (int, string) ApiResponse)"
    by (rule rest [THEN conjunct1])
  show "isSuccessResponse
        (fst (createErrorResponse coarse_clock ''E1'' ''boom'' None 0) :: (int, string) ApiResponse)
      \<noteq> isErrorResponse
        (fst (createErrorResponse coarse_clock ''E1'' ''boom'' None 0) :: (int, string) ApiResponse)"
    by (rule rest [THEN conjunct2, THEN conjunct2, THEN conjunct2])
qed

text \<open>
  Claim C2, as the code has it. \<^verbatim>\<open>isSuccessResponse\<close> is true if and only if the flag is
  true and the envelope has a \<^verbatim>\<open>data\<close> property; \<^verbatim>\<open>isErrorResponse\<close> is true
  if and only if the flag is false and the envelope has an \<^verbatim>\<open>error\<close> property. The
  flag is necessary for each guard and not sufficient.
\<close>

theorem guards_flag_and_property:
  "(isSuccessResponse e = (success e \<and> data e \<noteq> None))
   \<and> (isErrorResponse e = (\<not> success e \<and> error e \<noteq> None))"
  by (simp add: guard_defs)

text \<open>
  Claim C2 as stated fails in both halves: a true flag without \<^verbatim>\<open>data\<close> is not a success
  for the guard, and a false flag without \<^verbatim>\<open>error\<close> is not an error.
\<close>

theorem guards_flag_alone_counterexample:
  "success success_without_data \<and> \<not> isSuccessResponse success_without_data
   \<and> \<not> success failure_without_error \<and> \<not> isErrorResponse failure_without_error"
  by (simp add: guard_defs success_without_data_def failure_without_error_def)

text \<open>The amended C2 at \<^verbatim>\<open>{ success: false, timestamp: 0 }\<close>: both guards are false.\<close>

theorem guards_flag_and_property_witness:
  "\<not> isSuccessResponse failure_without_error \<and> \<not> isErrorResponse failure_without_error"
  using guards_flag_and_property [of failure_without_error]
  by (simp add: failure_without_error_def)

text \<open>
  Claim C9. The guards are never both true, on any envelope, well-formed or not: one
  needs the flag true and the other needs it false.
\<close>

theorem guards_never_both:
  "\<not> (isSuccessResponse e \<and> isErrorResponse e)"
  by (simp add: guard_defs)

text \<open>
  C9 at the envelope that carries both \<^verbatim>\<open>data\<close> and \<^verbatim>\<open>error\<close>: the flag is true, so
  only \<^verbatim>\<open>isSuccessResponse\<close> holds.
\<close>

theorem guards_never_both_witness:
  "isSuccessResponse data_and_error \<and> \<not> isErrorResponse data_and_error"
proof -
  have s: "isSuccessResponse data_and_error"
    by (simp add: guard_defs data_and_error_def)
  with guards_never_both [of data_and_error] show ?thesis by simp
qed

subsection \<open>The constructors\<close>

text \<open>
  Claim C3. Whatever the payload (also \<^verbatim>\<open>undefined\<close>), the envelope of
  \<^verbatim>\<open>createSuccessResponse\<close> passes \<^verbatim>\<open>isSuccessResponse\<close> and not \<^verbatim>\<open>isErrorResponse\<close>;
  whatever the code, message and details, the envelope of \<^verbatim>\<open>createErrorResponse\<close>
  passes \<^verbatim>\<open>isErrorResponse\<close> and not \<^verbatim>\<open>isSuccessResponse\<close>.
\<close>

theorem guards_on_constructed:
  "isSuccessResponse (fst (createSuccessResponse clk v n))
   \<and> \<not> isErrorResponse (fst (createSuccessResponse clk v n))
   \<and> isErrorResponse (fst (createErrorResponse clk c m d n))
   \<and> \<not> isSuccessResponse (fst (createErrorResponse clk c m d n))"
  by (simp add: guard_defs constructor_defs)

text \<open>
  Claim C4. The envelope of \<^verbatim>\<open>createSuccessResponse v\<close> has the flag true, a \<^verbatim>\<open>data\<close>
  property holding \<open>v\<close> itself (so reading \<^verbatim>\<open>.data\<close> gives \<open>v\<close> back; the constructor
  stores its argument and builds nothing from it, so a payload that is a reference stays
  that reference), the reading \<^verbatim>\<open>Date.now()\<close> gives at the call as \<^verbatim>\<open>timestamp\<close>, and no
  \<^verbatim>\<open>error\<close> property. The call takes exactly one reading of the clock.
\<close>

theorem createSuccessResponse_fields:
  "success (fst (createSuccessResponse clk v n)) = True
   \<and> data (fst (createSuccessResponse clk v n)) = Some v
   \<and> read_property (data (fst (createSuccessResponse clk v n))) = v
   \<and> timestamp (fst (createSuccessResponse clk v n)) = fst (Date_now clk n)
   \<and> error (fst (createSuccessResponse clk v n)) = None
   \<and> snd (createSuccessResponse clk v n) = snd (Date_now clk n)"
  by (simp add: constructor_defs read_property_def)

text \<open>
  Claim C5. The envelope of \<^verbatim>\<open>createErrorResponse code message details\<close> has the flag
  false, no \<^verbatim>\<open>data\<close> property, and an \<^verbatim>\<open>error\<close> record with the given code and message
  and a \<^verbatim>\<open>details\<close> property: the given value when one is passed, \<^verbatim>\<open>undefined\<close> when
  the argument is left out.
\<close>

theorem createErrorResponse_fields:
  "success (fst (createErrorResponse clk c m d n)) = False
   \<and> data (fst (createErrorResponse clk c m d n)) = None
   \<and> error (fst (createErrorResponse clk c m (Some v) n))
       = Some (Defined \<lparr>code = c, message = m, details = Some v\<rparr>)
   \<and> error (fst (createErrorResponse clk c m None n))
       = Some (Defined \<lparr>code = c, message = m, details = Some Undefined\<rparr>)
   \<and> timestamp (fst (createErrorResponse clk c m d n)) = fst (Date_now clk n)"
  by (simp add: constructor_defs optional_parameter_def)

text \<open>
  Claim C6. \<^verbatim>\<open>createErrorResponse\<close> checks nothing about its strings: for every code and
  message it returns an envelope that \<^verbatim>\<open>isErrorResponse\<close> accepts and whose error record
  holds the two strings as given; so it does for the empty strings; and the object
  literal it evaluates never throws.
\<close>

theorem createErrorResponse_no_validation:
  "isErrorResponse (fst (createErrorResponse clk c m d n))
   \<and> (\<exists>info. error (fst (createErrorResponse clk c m d n)) = Some (Defined info)
         \<and> code info = c \<and> message info = m)
   \<and> (\<exists>info. error (fst (createErrorResponse clk [] [] d n)) = Some (Defined info)
         \<and> code info = [] \<and> message info = [])
   \<and> (\<exists>obj. fst (createErrorResponse_js clk c m d' n) = Inr obj)"
  by (simp add: guard_defs constructor_defs createErrorResponse_js_def)

subsection \<open>Timestamps\<close>

lemma run_call_step:
  "timestamp (fst (run_call clk c n)) = clk n \<and> snd (run_call clk c n) = Suc n"
  by (cases c) (simp_all add: constructor_defs)

lemma run_calls_readings:
  "map timestamp (fst (run_calls clk cs n)) = map (\<lambda>i. clk (n + i)) [0 ..< length cs]
   \<and> snd (run_calls clk cs n) = n + length cs"
proof (induction cs arbitrary: n)
  case Nil
  then show ?case by simp
next
  case (Cons c cs)
  show ?case using Cons [of "Suc n"] run_call_step [of clk c n]
    by (simp add: split_beta map_upt_Suc del: upt_Suc)
qed

text \<open>
  Claim C7. When the clock never goes back, the timestamps of the envelopes built by
  any sequence of constructor calls, started after any number of earlier readings, are
  non-decreasing in call order. Equal neighbours are allowed.
\<close>

theorem timestamps_nondecreasing:
  assumes "mono clk"
  shows "sorted (map timestamp (fst (run_calls clk cs n)))"
proof -
  have "sorted (map (\<lambda>i. clk (n + i)) [0 ..< length cs])"
    unfolding sorted_map
    by (rule sorted_wrt_mono_rel [of _ "(\<le>)"]) (auto intro: monoD [OF assms])
  then show ?thesis by (simp add: run_calls_readings)
qed

text \<open>
  C7 on a clock whose readings coincide in pairs: three calls, the first two with the
  same timestamp.
\<close>

theorem timestamps_nondecreasing_witness:
  "mono coarse_clock
   \<and> map timestamp (fst (run_calls coarse_clock
        [CallSuccess (Defined (42::int)), CallError ''E1'' ''boom'' (None :: string js option),
         CallSuccess Undefined] 0))
       = [1700000000000, 1700000000000, 1700000000001]
   \<and> sorted (map timestamp (fst (run_calls coarse_clock
        [CallSuccess (Defined (42::int)), CallError ''E1'' ''boom'' (None :: string js option),
         CallSuccess Undefined] 0)))"
proof -
  have m: "mono coarse_clock"
    by (intro monoI) (simp add: coarse_clock_def div_le_mono)
  show ?thesis using m timestamps_nondecreasing [OF m]
    by (simp add: constructor_defs coarse_clock_def)
qed

text \<open>
  Claim C10. The clock reading is the only thing besides the arguments that an envelope
  depends on: two calls with the same arguments that read the same time, on any two
  clocks and after any numbers of earlier readings, return equal envelopes.
\<close>

theorem constructors_deterministic:
  assumes "clk1 n1 = clk2 n2"
  shows "fst (createSuccessResponse clk1 v n1) = fst (createSuccessResponse clk2 v n2)
         \<and> fst (createErrorResponse clk1 c m d n1) = fst (createErrorResponse clk2 c m d n2)"
  using assms by (simp add: constructor_defs)

text \<open>
  C10 on two different clocks that show the same time at the two calls: the third
  reading of the coarse clock and the eighth of the frozen one.
\<close>

theorem constructors_deterministic_witness:
  "coarse_clock 2 = frozen_clock 7
   \<and> (fst (createSuccessResponse coarse_clock (Defined (42::int)) 2) :: (int, string) ApiResponse)
       = fst (createSuccessResponse frozen_clock (Defined 42) 7)
   \<and> (fst (createErrorResponse coarse_clock ''E1'' ''boom'' (Some (Defined ''x'')) 2)
        :: (int, string) ApiResponse)
       = fst (createErrorResponse frozen_clock ''E1'' ''boom'' (Some (Defined ''x'')) 7)"
proof -
  have r: "coarse_clock 2 = frozen_clock 7"
    by (simp add: coarse_clock_def frozen_clock_def)
  show ?thesis
    using r constructors_deterministic [of coarse_clock 2 frozen_clock 7, OF r] by simp
qed

subsection \<open>Totality\<close>

lemma isSuccessResponse_js_total:
  "isSuccessResponse_js (ApiResponse_object enc_a enc_d e) = Inr (JBool (isSuccessResponse e))"
  by (cases "data e"; cases "error e")
     (simp_all add: isSuccessResponse_js_def ApiResponse_object_def property_def guard_defs)

lemma isErrorResponse_js_total:
  "isErrorResponse_js (ApiResponse_object enc_a enc_d e) = Inr (JBool (isErrorResponse e))"
  by (cases "data e"; cases "error e")
     (simp_all add: isErrorResponse_js_def ApiResponse_object_def property_def guard_defs)

lemma createSuccessResponse_js_total:
  "createSuccessResponse_js clk (js_of enc_a v) n
     = (Inr (ApiResponse_object enc_a enc_d (fst (createSuccessResponse clk v n))), Suc n)"
  by (simp add: createSuccessResponse_js_def constructor_defs ApiResponse_object_def property_def)

lemma createErrorResponse_js_total:
  "createErrorResponse_js clk c m (map_option (js_of enc_d) d) n
     = (Inr (ApiResponse_object enc_a enc_d (fst (createErrorResponse clk c m d n))), Suc n)"
  by (cases d)
     (simp_all add: createErrorResponse_js_def constructor_defs ApiResponse_object_def
        property_def ErrorInfo_object_def js_of_def optional_parameter_def)

text \<open>
  Claim C8. None of the four operations throws. Run on JavaScript values, with the
  throwing cases of property access and of \<^verbatim>\<open>in\<close> kept, each constructor returns the
  object of the typed envelope and leaves the clock one reading further, its only effect;
  each guard, on the object of any envelope of the interface, returns the boolean the
  typed guard computes. The constructors return an object for every JavaScript value
  passed as payload or details. The guards take no state and return none.
\<close>

theorem operations_total:
  "createSuccessResponse_js clk (js_of enc_a v) n
     = (Inr (ApiResponse_object enc_a enc_d (fst (createSuccessResponse clk v n))), Suc n)
   \<and> createErrorResponse_js clk c m (map_option (js_of enc_d) d) n
     = (Inr (ApiResponse_object enc_a enc_d (fst (createErrorResponse clk c m d n))), Suc n)
   \<and> isSuccessResponse_js (ApiResponse_object enc_a enc_d e) = Inr (JBool (isSuccessResponse e))
   \<and> isErrorResponse_js (ApiResponse_object enc_a enc_d e) = Inr (JBool (isErrorResponse e))
   \<and> (\<exists>obj. createSuccessResponse_js clk x n = (Inr obj, Suc n))
   \<and> (\<exists>obj. createErrorResponse_js clk c m x' n = (Inr obj, Suc n))"
proof (intro conjI)
  show "createSuccessResponse_js clk (js_of enc_a v) n
     = (Inr (ApiResponse_object enc_a enc_d (fst (createSuccessResponse clk v n))), Suc n)"
    by (rule createSuccessResponse_js_total)
  show "createErrorResponse_js clk c m (map_option (js_of enc_d) d) n
     = (Inr (ApiResponse_object enc_a enc_d (fst (createErrorResponse clk c m d n))), Suc n)"
    by (rule createErrorResponse_js_total)
  show "isSuccessResponse_js (ApiResponse_object enc_a enc_d e) = Inr (JBool (isSuccessResponse e))"
    by (rule isSuccessResponse_js_total)
  show "isErrorResponse_js (ApiResponse_object enc_a enc_d e) = Inr (JBool (isErrorResponse e))"
    by (rule isErrorResponse_js_total)
  show "\<exists>obj. createSuccessResponse_js clk x n = (Inr obj, Suc n)"
    by (simp add: createSuccessResponse_js_def Date_now_def)
  show "\<exists>obj. createErrorResponse_js clk c m x' n = (Inr obj, Suc n)"
    by (simp add: createErrorResponse_js_def Date_now_def)
qed

end
